theory Spec2Isabelle
  imports Complex_Main "HOL-Library.Word"
begin

unbundle bit_operations_syntax

section \<open>Wire framing (app/core/vmc\_controller.py)\<close>

text \<open>
  A Python \<open>bytes\<close> value is a list of 8-bit words. Exceptions of the source are values of
  the type \<open>error\<close>.
\<close>

type_synonym byte = "8 word"

datatype error = ValueError | IndexError | TypeError | StructError

datatype Command =
    POLL | ACK | CHECK_AISLE | AISLE_STATUS_RESPONSE | SELECT_BUY | DISPENSING_STATUS
  | SELECT_AISLE | DRIVE_AISLE_DIRECT | AISLE_INFO | SET_AISLE_PRICE | SET_AISLE_INVENTORY
  | SET_AISLE_CAPACITY | SET_AISLE_COMMODITY | POS_DISPLAY | REQUEST_SYNC
  | REQUEST_MACHINE_STATUS | MACHINE_STATUS_RESPONSE

text \<open>\<open>Command.value\<close>: the byte of each member of the enum.\<close>

fun command_value :: "Command \<Rightarrow> byte" where
  "command_value POLL = 0x41"
| "command_value ACK = 0x42"
| "command_value CHECK_AISLE = 0x01"
| "command_value AISLE_STATUS_RESPONSE = 0x02"
| "command_value SELECT_BUY = 0x03"
| "command_value DISPENSING_STATUS = 0x04"
| "command_value SELECT_AISLE = 0x05"
| "command_value DRIVE_AISLE_DIRECT = 0x06"
| "command_value AISLE_INFO = 0x11"
| "command_value SET_AISLE_PRICE = 0x12"
| "command_value SET_AISLE_INVENTORY = 0x13"
| "command_value SET_AISLE_CAPACITY = 0x14"
| "command_value SET_AISLE_COMMODITY = 0x15"
| "command_value POS_DISPLAY = 0x24"
| "command_value REQUEST_SYNC = 0x31"
| "command_value REQUEST_MACHINE_STATUS = 0x51"
| "command_value MACHINE_STATUS_RESPONSE = 0x52"

text \<open>\<open>Command(v)\<close>: the member with value \<open>v\<close>; \<open>None\<close> stands for the ValueError that
  \<open>parse_packet\<close> catches.\<close>

definition Command_of_value :: "byte \<Rightarrow> Command option" where
  "Command_of_value v =
     (if v = 0x41 then Some POLL
      else if v = 0x42 then Some ACK
      else if v = 0x01 then Some CHECK_AISLE
      else if v = 0x02 then Some AISLE_STATUS_RESPONSE
      else if v = 0x03 then Some SELECT_BUY
      else if v = 0x04 then Some DISPENSING_STATUS
      else if v = 0x05 then Some SELECT_AISLE
      else if v = 0x06 then Some DRIVE_AISLE_DIRECT
      else if v = 0x11 then Some AISLE_INFO
      else if v = 0x12 then Some SET_AISLE_PRICE
      else if v = 0x13 then Some SET_AISLE_INVENTORY
      else if v = 0x14 then Some SET_AISLE_CAPACITY
      else if v = 0x15 then Some SET_AISLE_COMMODITY
      else if v = 0x24 then Some POS_DISPLAY
      else if v = 0x31 then Some REQUEST_SYNC
      else if v = 0x51 then Some REQUEST_MACHINE_STATUS
      else if v = 0x52 then Some MACHINE_STATUS_RESPONSE
      else None)"

definition STX :: "byte list" where
  "STX = [0xFA, 0xFB]"

text \<open>\<open>calculate_xor\<close>: the loop \<open>xor = 0; for byte in data: xor ^= byte\<close>.\<close>

definition calculate_xor :: "byte list \<Rightarrow> byte" where
  "calculate_xor data = foldl (\<lambda>xor byte. xor XOR byte) 0 data"

text \<open>
  \<open>create_packet\<close>. \<open>bytes([command.value, length])\<close> raises ValueError when \<open>length\<close> is
  not in \<open>range(256)\<close>; every \<open>command.value\<close> is.
\<close>

definition create_packet :: "Command \<Rightarrow> byte list \<Rightarrow> error + byte list" where
  "create_packet command text =
     (let len = length text in
      if len < 256 then
        (let packet = STX @ [command_value command, of_nat len] @ text;
             xor = calculate_xor packet
         in Inr (packet @ [xor]))
      else Inl ValueError)"

text \<open>
  \<open>parse_packet\<close>. The slice \<open>data[a:b]\<close> is \<open>take (b - a) (drop a data)\<close>; every index read
  is below \<open>len(data)\<close> by the two length checks before it.
\<close>

definition parse_packet :: "byte list \<Rightarrow> (Command \<times> byte list) option" where
  "parse_packet data =
     (if length data < 5 then None
      else if take 2 data \<noteq> STX then None
      else
        (let command_value = data ! 2;
             len = unat (data ! 3)
         in if length data < 5 + len then None
            else
              (let text = take len (drop 4 data);
                   xor_received = data ! (4 + len);
                   xor_calculated = calculate_xor (take (4 + len) data)
               in if xor_received \<noteq> xor_calculated then None
                  else (case Command_of_value command_value of
                          None \<Rightarrow> None
                        | Some command \<Rightarrow> Some (command, text)))))"




section \<open>Protocol engine (app/core/vmc\_controller.py)\<close>

datatype AisleStatus = NORMAL | OUT_OF_STOCK | DOESNT_EXIST | PAUSED

datatype DispensingStatus = DISPENSING | SUCCESS | JAMMED | MOTOR_DOESNT_STOP | MOTOR_DOESNT_EXIST

text \<open>\<open>AisleStatus(v)\<close> and \<open>DispensingStatus(v)\<close> under \<open>try ... except ValueError: status = None\<close>.\<close>

definition AisleStatus_of_value :: "byte \<Rightarrow> AisleStatus option" where
  "AisleStatus_of_value v =
     (if v = 0x01 then Some NORMAL
      else if v = 0x02 then Some OUT_OF_STOCK
      else if v = 0x03 then Some DOESNT_EXIST
      else if v = 0x04 then Some PAUSED
      else None)"

definition DispensingStatus_of_value :: "byte \<Rightarrow> DispensingStatus option" where
  "DispensingStatus_of_value v =
     (if v = 0x01 then Some DISPENSING
      else if v = 0x02 then Some SUCCESS
      else if v = 0x03 then Some JAMMED
      else if v = 0x04 then Some MOTOR_DOESNT_STOP
      else if v = 0x06 then Some MOTOR_DOESNT_EXIST
      else None)"

record DispenseResult =
  success :: bool
  aisle_number :: int
  status :: "DispensingStatus option"
  message :: string

text \<open>
  An entry of \<open>command_queue\<close>: the dict built by \<open>queue_command\<close>, one field per key (the
  key \<open>"text"\<close> is the field \<open>cmd_text\<close>). Wall-clock readings of \<open>time.time()\<close> are reals.
\<close>

record 'cb cmd_info =
  packet :: "byte list"
  command :: Command
  cmd_text :: "byte list"
  retries :: int
  max_retries :: int
  waiting_ack :: bool
  sent_time :: "real option"
  callback :: "'cb option"
  callback_key :: "int option"

text \<open>What a callback was called with: a \<open>DispenseResult\<close>, or \<open>(aisle_num, status)\<close>.\<close>

datatype callback_args = Dispense_args DispenseResult | Aisle_args int "AisleStatus option"

text \<open>
  The controller object. \<open>'cb\<close> is the type of callables. \<open>serial\<close> is \<open>None\<close> while
  \<open>self.serial\<close> is \<open>None\<close> and \<open>Some b\<close> for a port whose \<open>is_open\<close> is \<open>b\<close>; \<open>connected_flag\<close>
  is \<open>self._connected\<close>; \<open>self_max_retries\<close> is \<open>self.max_retries\<close>. Two fields record what
  the object did to the outside: \<open>written\<close>, the packets passed to a successful
  \<open>serial.write\<close>, and \<open>invoked\<close>, the callbacks called with their arguments, both oldest
  first.
\<close>

record 'cb controller =
  self_max_retries :: int
  serial :: "bool option"
  comm_number :: int
  running :: bool
  command_queue :: "'cb cmd_info list"
  dispense_callbacks :: "int \<rightharpoonup> 'cb"
  aisle_status_callbacks :: "int \<rightharpoonup> 'cb"
  connected_flag :: bool
  written :: "byte list list"
  invoked :: "('cb \<times> callback_args) list"

definition COMMAND_TIMEOUT :: real where
  "COMMAND_TIMEOUT = 1.0"

text \<open>\<open>__init__\<close>; \<open>max_retries\<close> is the only argument the engine reads later.\<close>

definition init_controller :: "int \<Rightarrow> 'cb controller" where
  "init_controller max_retries_arg =
     \<lparr>self_max_retries = max_retries_arg, serial = None, comm_number = 1, running = False,
      command_queue = [], dispense_callbacks = Map.empty,
      aisle_status_callbacks = Map.empty, connected_flag = False,
      written = [], invoked = []\<rparr>"

definition is_connected :: "'cb controller \<Rightarrow> bool" where
  "is_connected c = (connected_flag c \<and> serial c \<noteq> None \<and> serial c = Some True)"

text \<open>\<open>connect\<close>: \<open>opened\<close> tells whether \<open>serial.Serial(...)\<close> returned or raised.\<close>

definition connect :: "'cb controller \<Rightarrow> bool \<Rightarrow> bool \<times> 'cb controller" where
  "connect c opened =
     (if opened then (True, c\<lparr>serial := Some True, connected_flag := True\<rparr>)
      else (False, c\<lparr>connected_flag := False\<rparr>))"

definition stop :: "'cb controller \<Rightarrow> 'cb controller" where
  "stop c = c\<lparr>running := False\<rparr>"

definition disconnect :: "'cb controller \<Rightarrow> 'cb controller" where
  "disconnect c =
     (let c1 = stop c;
          c2 = (if serial c1 = Some True then c1\<lparr>serial := Some False\<rparr> else c1)
      in c2\<lparr>connected_flag := False\<rparr>)"

text \<open>
  \<open>self.serial.write(p)\<close> inside \<open>try ... except Exception\<close>: it raises when there is no
  port object or the port is closed, and whenever the device fails (\<open>device_ok\<close> false);
  \<open>None\<close> is the caught exception.
\<close>

definition serial_write :: "'cb controller \<Rightarrow> bool \<Rightarrow> byte list \<Rightarrow> 'cb controller option" where
  "serial_write c device_ok p =
     (if serial c = Some True \<and> device_ok then Some (c\<lparr>written := written c @ [p]\<rparr>)
      else None)"

text \<open>
  Operations that may raise after they changed the object return the exception, if any,
  and the object as it is then.
\<close>

definition send_ack :: "'cb controller \<Rightarrow> bool \<Rightarrow> error option \<times> 'cb controller" where
  "send_ack c device_ok =
     (case create_packet ACK [] of
        Inl e \<Rightarrow> (Some e, c)
      | Inr ack_packet \<Rightarrow>
          (case serial_write c device_ok ack_packet of
             Some c' \<Rightarrow> (None, c')
           | None \<Rightarrow> (None, c)))"

definition get_next_comm_number :: "'cb controller \<Rightarrow> int \<times> 'cb controller" where
  "get_next_comm_number c =
     (let current = comm_number c
      in (current, c\<lparr>comm_number := (comm_number c mod 255) + 1\<rparr>))"

definition queue_command ::
  "'cb controller \<Rightarrow> Command \<Rightarrow> byte list \<Rightarrow> 'cb option \<Rightarrow> int option
     \<Rightarrow> error option \<times> 'cb controller" where
  "queue_command c cmd text cb key =
     (case create_packet cmd text of
        Inl e \<Rightarrow> (Some e, c)
      | Inr pkt \<Rightarrow>
          (None,
           c\<lparr>command_queue := command_queue c @
                [\<lparr>packet = pkt, command = cmd, cmd_text = text, retries = 0,
                  max_retries = self_max_retries c, waiting_ack = False, sent_time = None,
                  callback = cb, callback_key = key\<rparr>]\<rparr>))"

text \<open>
  \<open>handle_poll\<close>. \<open>now1\<close> and \<open>now2\<close> are the two readings of \<open>time.time()\<close>. Subtracting
  a \<open>sent_time\<close> of \<open>None\<close> raises TypeError before anything is changed.
\<close>

definition poll_timeout_step ::
  "'cb controller \<Rightarrow> real \<Rightarrow> error option \<times> 'cb controller" where
  "poll_timeout_step c now1 =
     (case command_queue c of
        [] \<Rightarrow> (None, c)
      | cmd # rest \<Rightarrow>
          (if waiting_ack cmd then
             (case sent_time cmd of
                None \<Rightarrow> (Some TypeError, c)
              | Some sent \<Rightarrow>
                  (if now1 - sent > COMMAND_TIMEOUT then
                     (if retries cmd + 1 \<ge> max_retries cmd
                      then (None, c\<lparr>command_queue := rest\<rparr>)
                      else (None,
                            c\<lparr>command_queue :=
                                cmd\<lparr>retries := retries cmd + 1, waiting_ack := False\<rparr> # rest\<rparr>))
                   else (None, c)))
           else (None, c)))"

definition poll_send_step ::
  "'cb controller \<Rightarrow> real \<Rightarrow> bool \<Rightarrow> error option \<times> 'cb controller" where
  "poll_send_step c now2 device_ok =
     (case command_queue c of
        [] \<Rightarrow> send_ack c device_ok
      | cmd # rest \<Rightarrow>
          (if \<not> waiting_ack cmd then
             (case serial_write c device_ok (packet cmd) of
                Some c' \<Rightarrow>
                  (None,
                   c'\<lparr>command_queue :=
                        cmd\<lparr>waiting_ack := True, sent_time := Some now2\<rparr> # rest\<rparr>)
              | None \<Rightarrow> (None, c))
           else send_ack c device_ok))"

definition handle_poll ::
  "'cb controller \<Rightarrow> real \<Rightarrow> real \<Rightarrow> bool \<Rightarrow> error option \<times> 'cb controller" where
  "handle_poll c now1 now2 device_ok =
     (case poll_timeout_step c now1 of
        (Some e, c') \<Rightarrow> (Some e, c')
      | (None, c') \<Rightarrow> poll_send_step c' now2 device_ok)"

text \<open>
  Checked reads, so that an index out of range and a wrong-sized \<open>struct\<close> buffer are
  results: \<open>data[i]\<close>, \<open>struct.unpack(">H", b)[0]\<close>, \<open>struct.pack(">H", n)\<close> and
  \<open>bytes([...])\<close>.
\<close>

definition byte_at :: "byte list \<Rightarrow> nat \<Rightarrow> error + byte" where
  "byte_at data i = (if i < length data then Inr (data ! i) else Inl IndexError)"

definition unpack_H :: "byte list \<Rightarrow> error + int" where
  "unpack_H b = (case b of [hi, lo] \<Rightarrow> Inr (uint hi * 256 + uint lo) | _ \<Rightarrow> Inl StructError)"

definition pack_H :: "int \<Rightarrow> error + byte list" where
  "pack_H n =
     (if 0 \<le> n \<and> n \<le> 65535 then Inr [word_of_int (n div 256), word_of_int (n mod 256)]
      else Inl StructError)"

definition bytes_of_ints :: "int list \<Rightarrow> error + byte list" where
  "bytes_of_ints ns =
     (if list_all (\<lambda>n. 0 \<le> n \<and> n < 256) ns then Inr (map word_of_int ns)
      else Inl ValueError)"

text \<open>Calling a callback is recorded in \<open>invoked\<close>.\<close>

definition invoke :: "'cb controller \<Rightarrow> 'cb \<Rightarrow> callback_args \<Rightarrow> 'cb controller" where
  "invoke c cb args = c\<lparr>invoked := invoked c @ [(cb, args)]\<rparr>"

text \<open>The dict \<open>status_messages\<close> of \<open>handle_dispensing_status\<close> and its \<open>.get\<close>.\<close>

definition status_messages :: "DispensingStatus option \<rightharpoonup> string" where
  "status_messages =
     [Some JAMMED \<mapsto> ''Product jammed'',
      Some MOTOR_DOESNT_STOP \<mapsto> ''Motor error - doesn't stop'',
      Some MOTOR_DOESNT_EXIST \<mapsto> ''Motor not found'']"

definition dict_get :: "('k \<rightharpoonup> 'v) \<Rightarrow> 'k \<Rightarrow> 'v \<Rightarrow> 'v" where
  "dict_get d k dflt = (case d k of None \<Rightarrow> dflt | Some v \<Rightarrow> v)"

definition handle_dispensing_status ::
  "'cb controller \<Rightarrow> byte list \<Rightarrow> error option \<times> 'cb controller" where
  "handle_dispensing_status c data =
     (if length data < 4 then (None, c)
      else
        (case byte_at data 0 of Inl e \<Rightarrow> (Some e, c) | Inr comm_num \<Rightarrow>
        (case byte_at data 1 of Inl e \<Rightarrow> (Some e, c) | Inr status_code \<Rightarrow>
        (case unpack_H (take 2 (drop 2 data)) of Inl e \<Rightarrow> (Some e, c) | Inr aisle_num \<Rightarrow>
           (let status = DispensingStatus_of_value status_code
            in case dispense_callbacks c aisle_num of
                 None \<Rightarrow> (None, c)
               | Some cb \<Rightarrow>
                   (let c1 = c\<lparr>dispense_callbacks := (dispense_callbacks c)(aisle_num := None)\<rparr>
                    in if status = Some SUCCESS then
                         (None,
                          invoke c1 cb
                            (Dispense_args
                               \<lparr>success = True, aisle_number = aisle_num, status = status,
                                message = ''Dispense successful''\<rparr>))
                       else if status = Some DISPENSING then
                         (None,
                          c1\<lparr>dispense_callbacks := (dispense_callbacks c1)(aisle_num \<mapsto> cb)\<rparr>)
                       else
                         (None,
                          invoke c1 cb
                            (Dispense_args
                               \<lparr>success = False, aisle_number = aisle_num, status = status,
                                message =
                                  dict_get status_messages status ''Unknown error''\<rparr>))))))))"

definition handle_aisle_status_response ::
  "'cb controller \<Rightarrow> byte list \<Rightarrow> error option \<times> 'cb controller" where
  "handle_aisle_status_response c data =
     (if length data < 4 then (None, c)
      else
        (case byte_at data 0 of Inl e \<Rightarrow> (Some e, c) | Inr comm_num \<Rightarrow>
        (case byte_at data 1 of Inl e \<Rightarrow> (Some e, c) | Inr status_code \<Rightarrow>
        (case unpack_H (take 2 (drop 2 data)) of Inl e \<Rightarrow> (Some e, c) | Inr aisle_num \<Rightarrow>
           (let status = AisleStatus_of_value status_code
            in case aisle_status_callbacks c aisle_num of
                 None \<Rightarrow> (None, c)
               | Some cb \<Rightarrow>
                   (None,
                    invoke
                      (c\<lparr>aisle_status_callbacks :=
                           (aisle_status_callbacks c)(aisle_num := None)\<rparr>)
                      cb (Aisle_args aisle_num status)))))))"

text \<open>
  The submission methods. Each takes the next communication number first, so that an
  exception raised while the payload is built leaves the counter advanced.
\<close>

definition request_info_sync :: "'cb controller \<Rightarrow> error option \<times> 'cb controller" where
  "request_info_sync c =
     (case get_next_comm_number c of (comm_num, c1) \<Rightarrow>
        (case bytes_of_ints [comm_num] of
           Inl e \<Rightarrow> (Some e, c1)
         | Inr text \<Rightarrow> queue_command c1 REQUEST_SYNC text None None))"

definition check_aisle ::
  "'cb controller \<Rightarrow> int \<Rightarrow> 'cb option \<Rightarrow> error option \<times> 'cb controller" where
  "check_aisle c aisle cb =
     (case get_next_comm_number c of (comm_num, c1) \<Rightarrow>
        (case pack_H aisle of Inl e \<Rightarrow> (Some e, c1) | Inr aisle_bytes \<Rightarrow>
        (case bytes_of_ints [comm_num] of Inl e \<Rightarrow> (Some e, c1) | Inr b \<Rightarrow>
           (let text = b @ aisle_bytes;
                c2 = (case cb of
                        None \<Rightarrow> c1
                      | Some f \<Rightarrow>
                          c1\<lparr>aisle_status_callbacks :=
                               (aisle_status_callbacks c1)(aisle \<mapsto> f)\<rparr>)
            in queue_command c2 CHECK_AISLE text None None))))"

definition dispense ::
  "'cb controller \<Rightarrow> int \<Rightarrow> 'cb option \<Rightarrow> error option \<times> 'cb controller" where
  "dispense c aisle cb =
     (case get_next_comm_number c of (comm_num, c1) \<Rightarrow>
        (case pack_H aisle of Inl e \<Rightarrow> (Some e, c1) | Inr aisle_bytes \<Rightarrow>
        (case bytes_of_ints [comm_num] of Inl e \<Rightarrow> (Some e, c1) | Inr b \<Rightarrow>
           (let text = b @ aisle_bytes;
                c2 = (case cb of
                        None \<Rightarrow> c1
                      | Some f \<Rightarrow>
                          c1\<lparr>dispense_callbacks := (dispense_callbacks c1)(aisle \<mapsto> f)\<rparr>)
            in queue_command c2 SELECT_BUY text None None))))"

definition drive_aisle_direct ::
  "'cb controller \<Rightarrow> int \<Rightarrow> bool \<Rightarrow> bool \<Rightarrow> 'cb option \<Rightarrow> error option \<times> 'cb controller" where
  "drive_aisle_direct c aisle use_drop_sensor use_elevator cb =
     (case get_next_comm_number c of (comm_num, c1) \<Rightarrow>
        (let sensor = (if use_drop_sensor then 1 else 0);
             elevator = (if use_elevator then 1 else 0)
         in case pack_H aisle of Inl e \<Rightarrow> (Some e, c1) | Inr aisle_bytes \<Rightarrow>
           (case bytes_of_ints [comm_num, sensor, elevator] of
              Inl e \<Rightarrow> (Some e, c1)
            | Inr b \<Rightarrow>
                (let text = b @ aisle_bytes;
                     c2 = (case cb of
                             None \<Rightarrow> c1
                           | Some f \<Rightarrow>
                               c1\<lparr>dispense_callbacks :=
                                    (dispense_callbacks c1)(aisle \<mapsto> f)\<rparr>)
                 in queue_command c2 DRIVE_AISLE_DIRECT text None None))))"

definition set_aisle_inventory ::
  "'cb controller \<Rightarrow> int \<Rightarrow> int \<Rightarrow> error option \<times> 'cb controller" where
  "set_aisle_inventory c aisle inventory =
     (case get_next_comm_number c of (comm_num, c1) \<Rightarrow>
        (case pack_H aisle of Inl e \<Rightarrow> (Some e, c1) | Inr aisle_bytes \<Rightarrow>
        (case bytes_of_ints [comm_num] of Inl e \<Rightarrow> (Some e, c1) | Inr b \<Rightarrow>
        (case bytes_of_ints [inventory] of Inl e \<Rightarrow> (Some e, c1) | Inr inv_byte \<Rightarrow>
           queue_command c1 SET_AISLE_INVENTORY (b @ aisle_bytes @ inv_byte) None None))))"

definition request_machine_status :: "'cb controller \<Rightarrow> error option \<times> 'cb controller" where
  "request_machine_status c =
     (case get_next_comm_number c of (comm_num, c1) \<Rightarrow>
        (case bytes_of_ints [comm_num] of
           Inl e \<Rightarrow> (Some e, c1)
         | Inr text \<Rightarrow> queue_command c1 REQUEST_MACHINE_STATUS text None None))"

text \<open>
  \<open>start\<close>: it returns \<open>False\<close> at once when there is no open port, and else sets
  \<open>running\<close>, starts the listener thread and queues a REQUEST\_SYNC. The Boolean results
  of \<open>start\<close> and of the submission methods (\<open>True\<close> whenever they return) are left out.
\<close>

definition start :: "'cb controller \<Rightarrow> error option \<times> 'cb controller" where
  "start c =
     (if serial c \<noteq> Some True then (None, c)
      else request_info_sync (c\<lparr>running := True\<rparr>))"

text \<open>
  \<open>handle_received_packet\<close>: the dispatch on the command of a decoded frame. A statement
  after a call that raised is not run.
\<close>

definition and_then ::
  "error option \<times> 'cb controller \<Rightarrow> ('cb controller \<Rightarrow> error option \<times> 'cb controller)
     \<Rightarrow> error option \<times> 'cb controller" where
  "and_then r f = (case r of (Some e, c) \<Rightarrow> (Some e, c) | (None, c) \<Rightarrow> f c)"

definition handle_ack :: "'cb controller \<Rightarrow> error option \<times> 'cb controller" where
  "handle_ack c =
     (case command_queue c of
        [] \<Rightarrow> (None, c)
      | cmd # rest \<Rightarrow>
          (if waiting_ack cmd then (None, c\<lparr>command_queue := rest\<rparr>) else (None, c)))"

definition handle_received_packet ::
  "'cb controller \<Rightarrow> real \<Rightarrow> real \<Rightarrow> bool \<Rightarrow> Command \<Rightarrow> byte list
     \<Rightarrow> error option \<times> 'cb controller" where
  "handle_received_packet c now1 now2 device_ok cmd text =
     (if cmd = POLL then handle_poll c now1 now2 device_ok
      else if cmd = ACK then handle_ack c
      else if cmd = DISPENSING_STATUS then
        and_then (handle_dispensing_status c text) (\<lambda>c'. send_ack c' device_ok)
      else if cmd = AISLE_STATUS_RESPONSE then
        and_then (handle_aisle_status_response c text) (\<lambda>c'. send_ack c' device_ok)
      else if cmd = AISLE_INFO then send_ack c device_ok
      else if cmd = REQUEST_SYNC then and_then (send_ack c device_ok) request_info_sync
      else if cmd = MACHINE_STATUS_RESPONSE then send_ack c device_ok
      else if cmd = POS_DISPLAY then send_ack c device_ok
      else send_ack c device_ok)"

section \<open>Request facade (app/services/dispense\_service.py, app/schemas/dispense.py)\<close>

text \<open>
  The members of the two caller-facing enums carry the enum's name, since
  \<open>DispensingStatus\<close> and \<open>AisleStatus\<close> have members of the same names.
\<close>

datatype DispenseStatusEnum =
    DispenseStatusEnum_PENDING | DispenseStatusEnum_DISPENSING | DispenseStatusEnum_SUCCESS
  | DispenseStatusEnum_FAILED | DispenseStatusEnum_JAMMED | DispenseStatusEnum_MOTOR_ERROR
  | DispenseStatusEnum_NOT_FOUND

datatype AisleStatusEnum =
    AisleStatusEnum_NORMAL | AisleStatusEnum_OUT_OF_STOCK | AisleStatusEnum_NOT_EXIST
  | AisleStatusEnum_PAUSED

text \<open>A response message is a string literal of the source or \<open>str(e)\<close> of a caught exception.\<close>

datatype message_text = Literal string | Str_of_exception error

record DispenseRequest =
  req_aisle_number :: int
  use_drop_sensor :: bool
  use_elevator :: bool
  force :: bool

record DispenseResponse =
  resp_success :: bool
  resp_aisle_number :: int
  resp_status :: DispenseStatusEnum
  resp_message :: message_text
  transaction_id :: "string option"

record AisleStatusResponse =
  asr_aisle_number :: int
  asr_status :: AisleStatusEnum
  asr_message :: message_text

text \<open>
  The service object. A callback handed to the controller is the closure over one future,
  so the callables of the controller are futures: \<open>'fut controller\<close>.
\<close>

record 'fut DispenseService =
  controller :: "'fut controller"
  pending_dispenses :: "int \<rightharpoonup> 'fut"
  pending_status_checks :: "int \<rightharpoonup> 'fut"

definition map_dispense_status :: "DispensingStatus option \<Rightarrow> DispenseStatusEnum" where
  "map_dispense_status st =
     dict_get
       [Some DISPENSING \<mapsto> DispenseStatusEnum_DISPENSING,
        Some SUCCESS \<mapsto> DispenseStatusEnum_SUCCESS,
        Some JAMMED \<mapsto> DispenseStatusEnum_JAMMED,
        Some MOTOR_DOESNT_STOP \<mapsto> DispenseStatusEnum_MOTOR_ERROR,
        Some MOTOR_DOESNT_EXIST \<mapsto> DispenseStatusEnum_NOT_FOUND]
       st DispenseStatusEnum_FAILED"

definition map_aisle_status :: "AisleStatus option \<Rightarrow> AisleStatusEnum" where
  "map_aisle_status st =
     dict_get
       [Some NORMAL \<mapsto> AisleStatusEnum_NORMAL,
        Some OUT_OF_STOCK \<mapsto> AisleStatusEnum_OUT_OF_STOCK,
        Some DOESNT_EXIST \<mapsto> AisleStatusEnum_NOT_EXIST,
        Some PAUSED \<mapsto> AisleStatusEnum_PAUSED]
       st AisleStatusEnum_NOT_EXIST"

text \<open>
  What \<open>await asyncio.wait_for(future, timeout=timeout)\<close> does: it returns the future's
  result, raises \<open>asyncio.TimeoutError\<close> when the timeout elapses first, or raises
  another exception.
\<close>

datatype 'a awaited = Resolved 'a | TimeoutError | Await_raised error

text \<open>
  The coroutine \<open>DispenseService.dispense\<close> in two parts. \<open>dispense_start\<close> runs it up to
  the \<open>await\<close>: it returns \<open>Some response\<close> when the coroutine has returned by then (with the
  \<open>finally\<close> clause run if the \<open>try\<close> was entered) and \<open>None\<close> when it is suspended.
  \<open>dispense_finish\<close> runs the rest on the object as it is when the coroutine resumes.
  \<open>txn\<close> is the transaction id drawn from \<open>uuid4\<close>, \<open>future\<close> the future created.
\<close>

definition dispense_start ::
  "'fut DispenseService \<Rightarrow> DispenseRequest \<Rightarrow> string \<Rightarrow> 'fut
     \<Rightarrow> DispenseResponse option \<times> 'fut DispenseService" where
  "dispense_start s request txn future =
     (if \<not> is_connected (controller s) then
        (Some \<lparr>resp_success = False, resp_aisle_number = req_aisle_number request,
                resp_status = DispenseStatusEnum_FAILED,
                resp_message = Literal ''VMC not connected'', transaction_id = None\<rparr>,
         s)
      else
        (let s1 = s\<lparr>pending_dispenses :=
                       (pending_dispenses s)(req_aisle_number request \<mapsto> future)\<rparr>;
             r = (if force request then
                    drive_aisle_direct (controller s1) (req_aisle_number request)
                      (use_drop_sensor request) (use_elevator request) (Some future)
                  else dispense (controller s1) (req_aisle_number request) (Some future))
         in case r of
              (Some e, c') \<Rightarrow>
                (Some \<lparr>resp_success = False, resp_aisle_number = req_aisle_number request,
                        resp_status = DispenseStatusEnum_FAILED,
                        resp_message = Str_of_exception e, transaction_id = Some txn\<rparr>,
                 s1\<lparr>controller := c',
                    pending_dispenses :=
                      (pending_dispenses s1)(req_aisle_number request := None)\<rparr>)
            | (None, c') \<Rightarrow> (None, s1\<lparr>controller := c'\<rparr>)))"

definition dispense_finish ::
  "'fut DispenseService \<Rightarrow> DispenseRequest \<Rightarrow> string \<Rightarrow> DispenseResult awaited
     \<Rightarrow> DispenseResponse \<times> 'fut DispenseService" where
  "dispense_finish s request txn outcome =
     (let response =
            (case outcome of
               Resolved result \<Rightarrow>
                 \<lparr>resp_success = success result, resp_aisle_number = aisle_number result,
                  resp_status = map_dispense_status (status result),
                  resp_message = Literal (message result), transaction_id = Some txn\<rparr>
             | TimeoutError \<Rightarrow>
                 \<lparr>resp_success = False, resp_aisle_number = req_aisle_number request,
                  resp_status = DispenseStatusEnum_FAILED,
                  resp_message = Literal ''Operation timed out'', transaction_id = Some txn\<rparr>
             | Await_raised e \<Rightarrow>
                 \<lparr>resp_success = False, resp_aisle_number = req_aisle_number request,
                  resp_status = DispenseStatusEnum_FAILED,
                  resp_message = Str_of_exception e, transaction_id = Some txn\<rparr>)
      in (response,
          s\<lparr>pending_dispenses := (pending_dispenses s)(req_aisle_number request := None)\<rparr>))"

text \<open>\<open>DispenseService.check_aisle_status\<close>, split at its \<open>await\<close> in the same way.\<close>

definition check_aisle_status_start ::
  "'fut DispenseService \<Rightarrow> int \<Rightarrow> 'fut \<Rightarrow> AisleStatusResponse option \<times> 'fut DispenseService" where
  "check_aisle_status_start s aisle future =
     (if \<not> is_connected (controller s) then
        (Some \<lparr>asr_aisle_number = aisle, asr_status = AisleStatusEnum_NOT_EXIST,
                asr_message = Literal ''VMC not connected''\<rparr>,
         s)
      else
        (let s1 = s\<lparr>pending_status_checks := (pending_status_checks s)(aisle \<mapsto> future)\<rparr>
         in case check_aisle (controller s1) aisle (Some future) of
              (Some e, c') \<Rightarrow>
                (Some \<lparr>asr_aisle_number = aisle, asr_status = AisleStatusEnum_NOT_EXIST,
                        asr_message = Str_of_exception e\<rparr>,
                 s1\<lparr>controller := c',
                    pending_status_checks := (pending_status_checks s1)(aisle := None)\<rparr>)
            | (None, c') \<Rightarrow> (None, s1\<lparr>controller := c'\<rparr>)))"

definition aisle_status_messages :: "AisleStatus option \<rightharpoonup> string" where
  "aisle_status_messages =
     [Some NORMAL \<mapsto> ''Aisle is ready'',
      Some OUT_OF_STOCK \<mapsto> ''Aisle is out of stock'',
      Some DOESNT_EXIST \<mapsto> ''Aisle does not exist'',
      Some PAUSED \<mapsto> ''Aisle is paused'']"

definition check_aisle_status_finish ::
  "'fut DispenseService \<Rightarrow> int \<Rightarrow> (int \<times> AisleStatus option) awaited
     \<Rightarrow> AisleStatusResponse \<times> 'fut DispenseService" where
  "check_aisle_status_finish s aisle outcome =
     (let response =
            (case outcome of
               Resolved (aisle_num, st) \<Rightarrow>
                 \<lparr>asr_aisle_number = aisle_num, asr_status = map_aisle_status st,
                  asr_message = Literal (dict_get aisle_status_messages st ''Unknown status'')\<rparr>
             | TimeoutError \<Rightarrow>
                 \<lparr>asr_aisle_number = aisle, asr_status = AisleStatusEnum_NOT_EXIST,
                  asr_message = Literal ''Status check timed out''\<rparr>
             | Await_raised e \<Rightarrow>
                 \<lparr>asr_aisle_number = aisle, asr_status = AisleStatusEnum_NOT_EXIST,
                  asr_message = Str_of_exception e\<rparr>)
      in (response,
          s\<lparr>pending_status_checks := (pending_status_checks s)(aisle := None)\<rparr>))"

section \<open>Sequences of engine operations\<close>

text \<open>The values returned by \<open>n\<close> consecutive calls of \<open>get_next_comm_number\<close>, first call first.\<close>

fun comm_numbers :: "nat \<Rightarrow> 'cb controller \<Rightarrow> int list" where
  "comm_numbers 0 c = []"
| "comm_numbers (Suc n) c =
     (case get_next_comm_number c of (current, c') \<Rightarrow> current # comm_numbers n c')"

text \<open>
  The states the controller object can be in: those of a fresh object, and those any
  method call or any dispatched frame leads to. Every method holds \<open>self.lock\<close> for the
  whole time it reads or changes the queue, so the calls of the two threads interleave at
  these steps.
\<close>

inductive reachable :: "'cb controller \<Rightarrow> bool" where
  reach_init: "reachable (init_controller max_retries_arg)"
| reach_connect: "reachable c \<Longrightarrow> reachable (snd (connect c opened))"
| reach_disconnect: "reachable c \<Longrightarrow> reachable (disconnect c)"
| reach_start: "reachable c \<Longrightarrow> reachable (snd (start c))"
| reach_stop: "reachable c \<Longrightarrow> reachable (stop c)"
| reach_queue_command: "reachable c \<Longrightarrow> reachable (snd (queue_command c cmd text cb key))"
| reach_request_info_sync: "reachable c \<Longrightarrow> reachable (snd (request_info_sync c))"
| reach_check_aisle: "reachable c \<Longrightarrow> reachable (snd (check_aisle c aisle cb))"
| reach_dispense: "reachable c \<Longrightarrow> reachable (snd (dispense c aisle cb))"
| reach_drive_aisle_direct:
    "reachable c \<Longrightarrow> reachable (snd (drive_aisle_direct c aisle sensor elevator cb))"
| reach_set_aisle_inventory:
    "reachable c \<Longrightarrow> reachable (snd (set_aisle_inventory c aisle inventory))"
| reach_request_machine_status: "reachable c \<Longrightarrow> reachable (snd (request_machine_status c))"
| reach_handle_poll: "reachable c \<Longrightarrow> reachable (snd (handle_poll c now1 now2 device_ok))"
| reach_received:
    "reachable c \<Longrightarrow> reachable (snd (handle_received_packet c now1 now2 device_ok cmd text))"

text \<open>The queue invariant: no entry behind the head is waiting for an ACK.\<close>

definition queue_inv :: "'cb controller \<Rightarrow> bool" where
  "queue_inv c = (\<forall>e \<in> set (tl (command_queue c)). \<not> waiting_ack e)"

section \<open>Framing lemmas\<close>

lemma Command_of_command_value: "Command_of_value (command_value c) = Some c"
  by (cases c) (simp_all add: Command_of_value_def)

lemma foldl_xor_acc: "foldl (\<lambda>x b. x XOR b) a xs = a XOR foldl (\<lambda>x b. x XOR b) (0::byte) xs"
proof (induction xs arbitrary: a)
  case Nil show ?case by simp
next
  case (Cons y ys)
  have "foldl (\<lambda>x b. x XOR b) a (y # ys) = (a XOR y) XOR foldl (\<lambda>x b. x XOR b) 0 ys"
    using Cons.IH [of "a XOR y"] by simp
  also have "\<dots> = a XOR (y XOR foldl (\<lambda>x b. x XOR b) 0 ys)"
    by (simp add: xor.assoc)
  also have "y XOR foldl (\<lambda>x b. x XOR b) 0 ys = foldl (\<lambda>x b. x XOR b) 0 (y # ys)"
    using Cons.IH [of "y"] by simp
  finally show ?case .
qed

lemma calculate_xor_Nil: "calculate_xor [] = 0"
  by (simp add: calculate_xor_def)

lemma calculate_xor_Cons: "calculate_xor (x # xs) = x XOR calculate_xor xs"
  using foldl_xor_acc [of x xs] by (simp add: calculate_xor_def)

lemma calculate_xor_append: "calculate_xor (xs @ ys) = calculate_xor xs XOR calculate_xor ys"
  by (induction xs) (simp_all add: calculate_xor_Nil calculate_xor_Cons xor.assoc)

lemma unat_of_nat_len: "n < 256 \<Longrightarrow> unat (of_nat n :: byte) = n"
  by (simp add: unat_of_nat)

lemma length_STX: "length STX = 2"
  by (simp add: STX_def)

lemma parse_packet_shape:
  assumes l: "unat l = length t"
  shows "parse_packet (STX @ c # l # t @ x # rest) =
     (if x \<noteq> calculate_xor (STX @ c # l # t) then None
      else case Command_of_value c of None \<Rightarrow> None | Some cmd \<Rightarrow> Some (cmd, t))"
proof -
  define h where "h = STX @ [c, l]"
  have lh: "length h = 4" by (simp add: h_def length_STX)
  define d where "d = h @ t @ x # rest"
  have d_eq: "STX @ c # l # t @ x # rest = d" by (simp add: d_def h_def)
  have len: "length d = 5 + length t + length rest" by (simp add: d_def lh)
  have t2: "take 2 d = STX" by (simp add: d_def h_def length_STX)
  have n2: "d ! 2 = c" by (simp add: d_def h_def nth_append length_STX)
  have n3: "d ! 3 = l" by (simp add: d_def h_def nth_append length_STX)
  have dr: "take (length t) (drop 4 d) = t" by (simp add: d_def lh)
  have nx: "d ! (4 + length t) = x" by (simp add: d_def nth_append lh)
  have tk: "take (4 + length t) d = h @ t" by (simp add: d_def lh)
  have hx: "STX @ c # l # t = h @ t" by (simp add: h_def)
  show ?thesis
    unfolding d_eq hx
    by (simp add: parse_packet_def Let_def len t2 n2 n3 l dr nx tk)
qed

lemma create_packet_Inr_iff:
  "create_packet cmd text = Inr f \<longleftrightarrow> length text \<le> 255 \<and> f = 
     (STX @ [command_value cmd, of_nat (length text)] @ text @
          [calculate_xor (STX @ [command_value cmd, of_nat (length text)] @ text)])"
  by (auto simp add: create_packet_def Let_def)

lemma xor_cancel_left: "(a::byte) XOR b = a XOR c \<longleftrightarrow> b = c"
proof
  assume "a XOR b = a XOR c"
  then have "a XOR (a XOR b) = a XOR (a XOR c)" by simp
  then show "b = c" by (simp add: xor.assoc [symmetric])
qed simp

lemma xor_cancel_right: "(b::byte) XOR a = c XOR a \<longleftrightarrow> b = c"
  using xor_cancel_left [of a b c] by (simp add: xor.commute)

lemma calculate_xor_update:
  assumes "j < length xs"
  shows "calculate_xor (xs[j := b]) = calculate_xor xs XOR (xs ! j XOR b)"
proof -
  have u: "xs[j := b] = take j xs @ b # drop (Suc j) xs"
    using assms by (rule upd_conv_take_nth_drop)
  have o: "xs = take j xs @ xs ! j # drop (Suc j) xs"
    using assms by (rule id_take_nth_drop)
  define p where "p = calculate_xor (take j xs)"
  define q where "q = calculate_xor (drop (Suc j) xs)"
  have 1: "calculate_xor (xs[j := b]) = p XOR (b XOR q)"
    by (simp add: u calculate_xor_append calculate_xor_Cons p_def q_def)
  have "calculate_xor xs = calculate_xor (take j xs @ xs ! j # drop (Suc j) xs)"
    using o by simp
  then have 2: "calculate_xor xs = p XOR (xs ! j XOR q)"
    by (simp add: calculate_xor_append calculate_xor_Cons p_def q_def)
  have "(p XOR (xs ! j XOR q)) XOR (xs ! j XOR b) = p XOR (b XOR q)"
    by (simp add: ac_simps)
  then show ?thesis using 1 2 by simp
qed

lemma xor_neq_update: "(y::byte) \<noteq> b \<Longrightarrow> a XOR (y XOR b) \<noteq> a"
proof
  assume nb: "y \<noteq> b" and "a XOR (y XOR b) = a"
  then have "a XOR (y XOR b) = a XOR 0" by simp
  then have "y XOR b = 0" by (simp only: xor_cancel_left)
  then have "y XOR b = y XOR y" by simp
  then have "b = y" by (simp only: xor_cancel_left)
  with nb show False by simp
qed






section \<open>C1: resynchronisation after a checksum mismatch\<close>




section \<open>C2: encoding and decoding round-trip\<close>

text \<open>
  C2: for every command and every text of at most 255 bytes, \<open>create_packet\<close> returns a
  packet and \<open>parse_packet\<close> of that packet returns exactly the command and the text.
\<close>

theorem roundtrip:
  assumes "length text \<le> 255"
  shows "\<exists>packet. create_packet cmd text = Inr packet \<and> parse_packet packet = Some (cmd, text)"
proof -
  have u: "unat (of_nat (length text) :: byte) = length text"
    using assms by (simp add: unat_of_nat_len)
  have "create_packet cmd text =
      Inr (STX @ command_value cmd # of_nat (length text) # text @
           [calculate_xor (STX @ command_value cmd # of_nat (length text) # text)])"
    using assms by (simp add: create_packet_def Let_def)
  moreover have "parse_packet (STX @ command_value cmd # of_nat (length text) # text @
           [calculate_xor (STX @ command_value cmd # of_nat (length text) # text)])
       = Some (cmd, text)"
    by (simp add: parse_packet_shape [OF u] Command_of_command_value)
  ultimately show ?thesis by simp
qed

theorem roundtrip_witness:
  "length [1, 0, 5 :: byte] \<le> 255
   \<and> (\<exists>packet. create_packet SELECT_BUY [1, 0, 5] = Inr packet
        \<and> parse_packet packet = Some (SELECT_BUY, [1, 0, 5]))"
  using roundtrip [of "[1, 0, 5]" SELECT_BUY] by simp

section \<open>C3: single-byte corruption\<close>

text \<open>
  C3 as stated fails at the length byte. \<open>parse_packet\<close> reads the checksum at the place
  the length byte names and ignores what follows, so a length byte replaced by a smaller
  value is accepted whenever the text byte at that place happens to equal the XOR of the
  shortened frame. The valid frame \<open>FA FB 42 02 43 00 02\<close> (ACK with text \<open>43 00\<close>) with
  its length byte replaced by 0 decodes as an ACK with empty text.
\<close>

theorem corruption_counterexample:
  "create_packet ACK [0x43, 0] = Inr [0xFA, 0xFB, 0x42, 2, 0x43, 0, 2]
   \<and> [0xFA, 0xFB, 0x42, 2, 0x43, 0, 2 :: byte] ! 3 \<noteq> 0
   \<and> parse_packet ([0xFA, 0xFB, 0x42, 2, 0x43, 0, 2][3 := 0]) = Some (ACK, [])"
  by (simp add: create_packet_def parse_packet_def Let_def STX_def calculate_xor_def
      Command_of_value_def)

text \<open>
  C3, amended: for every frame built by \<open>create_packet\<close>, every byte position in it and
  every replacement byte different from the original, \<open>parse_packet\<close> rejects the
  corrupted frame, except in one case: the position is the length byte (index 3), the
  new length \<open>l\<close> is smaller than the original one, and text byte \<open>l\<close> equals the XOR of
  the first \<open>4 + l\<close> bytes of the corrupted frame. In that case the corrupted frame
  decodes as the same command with the first \<open>l\<close> bytes of the text.
\<close>

theorem corrupted_frame:
  assumes cp: "create_packet cmd text = Inr frame"
    and i: "i < length frame"
    and b: "b \<noteq> frame ! i"
  shows "parse_packet (frame[i := b]) =
     (if i = 3 \<and> unat b < length text \<and>
         text ! unat b = calculate_xor (STX @ [command_value cmd, b] @ take (unat b) text)
      then Some (cmd, take (unat b) text) else None)"
proof -
  define n where "n = length text"
  define cv where "cv = command_value cmd"
  define L :: byte where "L = of_nat n"
  define x where "x = calculate_xor (STX @ [cv, L] @ text)"
  have n255: "n \<le> 255" and fr: "frame = STX @ [cv, L] @ text @ [x]"
    using cp by (simp_all add: create_packet_Inr_iff n_def cv_def L_def x_def)
  have uL: "unat L = length text"
    using n255 by (simp add: L_def n_def [symmetric] unat_of_nat_len)
  have lenf: "length frame = 5 + n" by (simp add: fr length_STX n_def)
  have cmdv: "Command_of_value cv = Some cmd" by (simp add: cv_def Command_of_command_value)
  have fr4: "frame = [0xFA, 0xFB, cv, L] @ text @ [x]" by (simp add: fr STX_def)
  consider "i = 0" | "i = 1" | "i = 2" | "i = 3" | "4 \<le> i" "i < 4 + n" | "i = 4 + n"
    using i lenf by linarith
  then show ?thesis
  proof cases
    case 1
    then have "b \<noteq> 0xFA" using b by (simp add: fr4)
    then show ?thesis using 1 by (simp add: fr4 parse_packet_def STX_def)
  next
    case 2
    then have "b \<noteq> 0xFB" using b by (simp add: fr4)
    then show ?thesis using 2 by (simp add: fr4 parse_packet_def STX_def)
  next
    case 3
    then have bc: "b \<noteq> cv" using b by (simp add: fr4)
    have upd: "frame[i := b] = STX @ [b, L] @ text @ x # []"
      using 3 by (simp add: fr4 STX_def)
    have "x \<noteq> calculate_xor (STX @ [b, L] @ text)"
      using bc by (simp add: x_def calculate_xor_append calculate_xor_Cons xor_cancel_left xor_cancel_right)
    then have "parse_packet (frame[i := b]) = None"
      unfolding upd by (simp add: parse_packet_shape [OF uL])
    then show ?thesis using 3 by simp
  next
    case 4
    then have bl: "b \<noteq> L" using b by (simp add: fr4)
    then have ul: "unat b \<noteq> n" using uL by (simp add: word_unat_eq_iff n_def)
    have upd4: "frame[i := b] = [0xFA, 0xFB, cv, b] @ text @ [x]"
      using 4 by (simp add: fr4)
    show ?thesis
    proof (cases "unat b < n")
      case True
      have sp: "text = take (unat b) text @ text ! unat b # drop (Suc (unat b)) text"
        using True by (simp add: n_def id_take_nth_drop [symmetric])
      have "frame[i := b] = STX @ [cv, b] @ (take (unat b) text @ text ! unat b # drop (Suc (unat b)) text) @ [x]"
        using sp by (simp add: upd4 STX_def)
      then have upd: "frame[i := b] =
          STX @ [cv, b] @ take (unat b) text @ text ! unat b # (drop (Suc (unat b)) text @ [x])"
        by simp
      have lt: "unat b = length (take (unat b) text)"
        using True by (simp add: n_def)
      have "parse_packet (frame[i := b]) =
         (if text ! unat b \<noteq> calculate_xor (STX @ [cv, b] @ take (unat b) text) then None
          else Some (cmd, take (unat b) text))"
        unfolding upd by (simp add: parse_packet_shape [OF lt] cmdv)
      then show ?thesis
        using 4 True by (simp add: n_def cv_def)
    next
      case False
      then have "n < unat b" using ul by simp
      then have "parse_packet (frame[i := b]) = None"
        unfolding upd4 by (simp add: parse_packet_def STX_def n_def)
      then show ?thesis using False by (simp add: n_def)
    qed
  next
    case 5
    define j where "j = i - 4"
    have j: "j < length text" "i = 4 + j" using 5 by (simp_all add: j_def n_def)
    have upd: "frame[i := b] = STX @ [cv, L] @ text[j := b] @ x # []"
      using j by (simp add: fr4 STX_def list_update_append)
    have "frame ! i = text ! j" using j by (simp add: fr4 nth_append)
    then have tb: "text ! j \<noteq> b" using b by simp
    have ul': "unat L = length (text[j := b])" using uL by simp
    have "x \<noteq> calculate_xor (STX @ [cv, L] @ text[j := b])"
      using xor_neq_update [OF tb, of "calculate_xor text"] j(1)
      by (simp add: x_def calculate_xor_append calculate_xor_Cons xor_cancel_left calculate_xor_update)
    then have "parse_packet (frame[i := b]) = None"
      unfolding upd by (simp add: parse_packet_shape [OF ul'])
    then show ?thesis using 5 by simp
  next
    case 6
    have "frame ! i = x" using 6 by (simp add: fr4 nth_append n_def)
    then have bx: "b \<noteq> x" using b by simp
    have upd: "frame[i := b] = STX @ [cv, L] @ text @ b # []"
      using 6 by (simp add: fr4 STX_def list_update_append n_def)
    have "parse_packet (frame[i := b]) = None"
      unfolding upd using bx by (simp add: parse_packet_shape [OF uL] x_def)
    then show ?thesis using 6 by simp
  qed
qed

theorem corrupted_frame_witness:
  "create_packet ACK [0x43, 0] = Inr [0xFA, 0xFB, 0x42, 2, 0x43, 0, 2]
   \<and> 4 < length [0xFA, 0xFB, 0x42, 2, 0x43, 0, 2 :: byte]
   \<and> 0 \<noteq> [0xFA, 0xFB, 0x42, 2, 0x43, 0, 2 :: byte] ! 4
   \<and> parse_packet ([0xFA, 0xFB, 0x42, 2, 0x43, 0, 2][4 := 0]) = None"
  using corrupted_frame [of ACK "[0x43, 0]" "[0xFA, 0xFB, 0x42, 2, 0x43, 0, 2]" 4 0]
  by (simp add: create_packet_def Let_def STX_def calculate_xor_def)

section \<open>C4 and C5: dispensing status\<close>

lemma unpack_H_2: "unpack_H [hi, lo] = Inr (uint hi * 256 + uint lo)"
  by (simp add: unpack_H_def)

text \<open>
  C4 as stated fails in one message only: the message of MOTOR\_DOESNT\_STOP is spelt in
  the source with the ASCII hyphen-minus (byte 2D), while the claim spells it with an en
  dash (UTF-8 bytes E2 80 93). The controller below has one pending dispense for aisle 5.
\<close>

theorem dispensing_message_counterexample:
  "invoked (snd (handle_dispensing_status
                   (snd (dispense (init_controller 5 :: nat controller) 5 (Some 7)))
                   [1, 4, 0, 5]))
     = [(7, Dispense_args
              \<lparr>success = False, aisle_number = 5, status = Some MOTOR_DOESNT_STOP,
               message = ''Motor error - doesn't stop''\<rparr>)]
   \<and> ''Motor error - doesn't stop''
       \<noteq> ''Motor error '' @ [CHR 0xE2, CHR 0x80, CHR 0x93] @ '' doesn't stop''"
  by (simp add: handle_dispensing_status_def dispense_def get_next_comm_number_def
      init_controller_def pack_H_def bytes_of_ints_def queue_command_def create_packet_def
      byte_at_def unpack_H_def DispensingStatus_of_value_def Let_def invoke_def dict_get_def
      status_messages_def)

text \<open>
  C4, amended: when a DISPENSING\_STATUS payload \<open>comm_num, status_code, aisle (u16
  big-endian)\<close> arrives for an aisle with a pending dispense and its status code is not
  DISPENSING (0x01), the handler does not raise, removes the pending entry and calls its
  callback once with a \<open>DispenseResult\<close> for that aisle whose \<open>success\<close> is \<open>status =
  SUCCESS\<close> and whose message is: SUCCESS: "Dispense successful", JAMMED: "Product
  jammed", MOTOR\_DOESNT\_STOP: "Motor error - doesn't stop" (with a hyphen-minus),
  MOTOR\_DOESNT\_EXIST: "Motor not found", any other code: "Unknown error".
\<close>

theorem dispensing_terminal:
  assumes "dispense_callbacks c (uint hi * 256 + uint lo) = Some cb"
    and "code \<noteq> 0x01"
  shows "handle_dispensing_status c (comm # code # hi # lo # rest) =
     (None,
      c\<lparr>dispense_callbacks := (dispense_callbacks c)(uint hi * 256 + uint lo := None),
        invoked := invoked c @
          [(cb, Dispense_args
             \<lparr>success = (DispensingStatus_of_value code = Some SUCCESS),
              aisle_number = uint hi * 256 + uint lo,
              status = DispensingStatus_of_value code,
              message =
                (if DispensingStatus_of_value code = Some SUCCESS then ''Dispense successful''
                 else if DispensingStatus_of_value code = Some JAMMED then ''Product jammed''
                 else if DispensingStatus_of_value code = Some MOTOR_DOESNT_STOP
                   then ''Motor error - doesn't stop''
                 else if DispensingStatus_of_value code = Some MOTOR_DOESNT_EXIST
                   then ''Motor not found''
                 else ''Unknown error'')\<rparr>)]\<rparr>)"
proof -
  have nd: "DispensingStatus_of_value code \<noteq> Some DISPENSING"
    using assms(2) by (simp add: DispensingStatus_of_value_def)
  show ?thesis
    using assms(1) nd
    by (simp add: handle_dispensing_status_def byte_at_def unpack_H_2 Let_def invoke_def
        dict_get_def status_messages_def)
qed

theorem dispensing_terminal_witness:
  "dispense_callbacks (snd (dispense (init_controller 5 :: nat controller) 5 (Some 7)))
       (uint (0 :: byte) * 256 + uint (5 :: byte)) = Some 7
   \<and> (2 :: byte) \<noteq> 0x01
   \<and> fst (handle_dispensing_status
             (snd (dispense (init_controller 5 :: nat controller) 5 (Some 7))) [1, 2, 0, 5])
       = None
   \<and> dispense_callbacks
        (snd (handle_dispensing_status
                (snd (dispense (init_controller 5 :: nat controller) 5 (Some 7)))
                [1, 2, 0, 5])) 5 = None
   \<and> invoked
        (snd (handle_dispensing_status
                (snd (dispense (init_controller 5 :: nat controller) 5 (Some 7)))
                [1, 2, 0, 5]))
       = [(7, Dispense_args
                \<lparr>success = True, aisle_number = 5, status = Some SUCCESS,
                 message = ''Dispense successful''\<rparr>)]"
  using dispensing_terminal
    [of "snd (dispense (init_controller 5 :: nat controller) 5 (Some 7))" 0 5 7 2 1 "[]"]
  by (simp add: dispense_def get_next_comm_number_def init_controller_def pack_H_def
      bytes_of_ints_def queue_command_def create_packet_def Let_def
      DispensingStatus_of_value_def)

text \<open>
  C5: when a DISPENSING\_STATUS payload with status DISPENSING (0x01) arrives for an aisle
  that has a pending dispense, the handler does not raise and leaves the controller as it
  was: the same callback is registered under that aisle, the table of pending dispenses
  is unchanged, and no callback is called.
\<close>

theorem dispensing_intermediate:
  assumes "dispense_callbacks c (uint hi * 256 + uint lo) = Some cb"
  shows "handle_dispensing_status c (comm # 0x01 # hi # lo # rest) = (None, c)
    \<and> dispense_callbacks (snd (handle_dispensing_status c (comm # 0x01 # hi # lo # rest)))
        = dispense_callbacks c
    \<and> dispense_callbacks (snd (handle_dispensing_status c (comm # 0x01 # hi # lo # rest)))
        (uint hi * 256 + uint lo) = Some cb
    \<and> invoked (snd (handle_dispensing_status c (comm # 0x01 # hi # lo # rest))) = invoked c"
proof -
  have "(dispense_callbacks c)(uint hi * 256 + uint lo \<mapsto> cb) = dispense_callbacks c"
    using assms by (simp add: fun_upd_idem)
  then have "handle_dispensing_status c (comm # 0x01 # hi # lo # rest) = (None, c)"
    using assms
    by (simp add: handle_dispensing_status_def byte_at_def unpack_H_2 Let_def
        DispensingStatus_of_value_def)
  then show ?thesis using assms by simp
qed

theorem dispensing_intermediate_witness:
  "dispense_callbacks (snd (dispense (init_controller 5 :: nat controller) 5 (Some 7)))
       (uint (0 :: byte) * 256 + uint (5 :: byte)) = Some 7
   \<and> handle_dispensing_status
        (snd (dispense (init_controller 5 :: nat controller) 5 (Some 7))) [1, 1, 0, 5]
       = (None, snd (dispense (init_controller 5 :: nat controller) 5 (Some 7)))"
  using dispensing_intermediate
    [of "snd (dispense (init_controller 5 :: nat controller) 5 (Some 7))" 0 5 7 1 "[]"]
  by (simp add: dispense_def get_next_comm_number_def init_controller_def pack_H_def
      bytes_of_ints_def queue_command_def create_packet_def Let_def)

section \<open>C6: at most one command in flight\<close>

lemma queue_inv_init: "queue_inv (init_controller m)"
  by (simp add: queue_inv_def init_controller_def)

lemma queue_inv_upd [simp]:
  "queue_inv (c\<lparr>comm_number := n\<rparr>) = queue_inv c"
  "queue_inv (c\<lparr>dispense_callbacks := m\<rparr>) = queue_inv c"
  "queue_inv (c\<lparr>aisle_status_callbacks := m'\<rparr>) = queue_inv c"
  "queue_inv (c\<lparr>running := b\<rparr>) = queue_inv c"
  by (simp_all add: queue_inv_def)

lemma queue_command_inv [simp]:
  "queue_inv (snd (queue_command c cmd text cb key)) = queue_inv c"
  by (cases "command_queue c") (auto simp: queue_inv_def queue_command_def split: sum.splits)

lemma serial_write_queue:
  "serial_write c ok p = Some c' \<Longrightarrow> command_queue c' = command_queue c"
  by (auto simp: serial_write_def split: if_splits)

lemma send_ack_queue: "command_queue (snd (send_ack c ok)) = command_queue c"
  by (auto simp: send_ack_def dest: serial_write_queue split: sum.splits option.splits)

lemma send_ack_inv: "queue_inv c \<Longrightarrow> queue_inv (snd (send_ack c ok))"
  by (simp add: queue_inv_def send_ack_queue)

lemma in_set_tl: "x \<in> set (tl xs) \<Longrightarrow> x \<in> set xs"
  by (cases xs) auto

lemma poll_timeout_step_inv: "queue_inv c \<Longrightarrow> queue_inv (snd (poll_timeout_step c now1))"
  by (auto simp: queue_inv_def poll_timeout_step_def dest: in_set_tl
      split: list.splits option.splits)

lemma poll_send_step_inv: "queue_inv c \<Longrightarrow> queue_inv (snd (poll_send_step c now2 ok))"
  by (auto simp: queue_inv_def poll_send_step_def send_ack_queue dest: serial_write_queue
      split: list.splits option.splits)

lemma handle_poll_inv: "queue_inv c \<Longrightarrow> queue_inv (snd (handle_poll c now1 now2 ok))"
  using poll_timeout_step_inv [of c now1] poll_send_step_inv [of "snd (poll_timeout_step c now1)" now2 ok]
  by (auto simp: handle_poll_def split: prod.splits option.splits)

lemma handle_ack_inv: "queue_inv c \<Longrightarrow> queue_inv (snd (handle_ack c))"
  by (auto simp: queue_inv_def handle_ack_def dest: in_set_tl split: list.splits)

lemma handle_dispensing_status_queue:
  "command_queue (snd (handle_dispensing_status c data)) = command_queue c"
  by (simp add: handle_dispensing_status_def invoke_def Let_def split: sum.splits option.splits)

lemma handle_aisle_status_response_queue:
  "command_queue (snd (handle_aisle_status_response c data)) = command_queue c"
  by (simp add: handle_aisle_status_response_def invoke_def Let_def split: sum.splits option.splits)

lemma and_then_inv:
  "queue_inv (snd r) \<Longrightarrow> (\<And>c'. queue_inv c' \<Longrightarrow> queue_inv (snd (f c'))) \<Longrightarrow> queue_inv (snd (and_then r f))"
  by (auto simp: and_then_def split: prod.splits option.splits)

lemma request_info_sync_inv: "queue_inv c \<Longrightarrow> queue_inv (snd (request_info_sync c))"
  by (simp add: request_info_sync_def get_next_comm_number_def split: sum.splits)

lemma start_inv: "queue_inv c \<Longrightarrow> queue_inv (snd (start c))"
  by (simp add: start_def request_info_sync_inv)

lemma request_machine_status_inv: "queue_inv c \<Longrightarrow> queue_inv (snd (request_machine_status c))"
  by (simp add: request_machine_status_def get_next_comm_number_def split: sum.splits)

lemma set_aisle_inventory_inv: "queue_inv c \<Longrightarrow> queue_inv (snd (set_aisle_inventory c a i))"
  by (simp add: set_aisle_inventory_def get_next_comm_number_def split: sum.splits)

lemma check_aisle_inv: "queue_inv c \<Longrightarrow> queue_inv (snd (check_aisle c a cb))"
  by (simp add: check_aisle_def get_next_comm_number_def Let_def
      split: sum.splits option.splits)

lemma dispense_inv: "queue_inv c \<Longrightarrow> queue_inv (snd (dispense c a cb))"
  by (simp add: dispense_def get_next_comm_number_def Let_def
      split: sum.splits option.splits)

lemma drive_aisle_direct_inv: "queue_inv c \<Longrightarrow> queue_inv (snd (drive_aisle_direct c a s e cb))"
  by (simp add: drive_aisle_direct_def get_next_comm_number_def Let_def
      split: sum.splits option.splits)

lemma handle_received_packet_inv:
  assumes "queue_inv c"
  shows "queue_inv (snd (handle_received_packet c now1 now2 ok cmd text))"
proof -
  have d: "queue_inv (snd (handle_dispensing_status c text))"
    using assms by (simp add: queue_inv_def handle_dispensing_status_queue)
  have a: "queue_inv (snd (handle_aisle_status_response c text))"
    using assms by (simp add: queue_inv_def handle_aisle_status_response_queue)
  show ?thesis
    unfolding handle_received_packet_def
    using assms d a
    by (simp add: handle_poll_inv handle_ack_inv send_ack_inv and_then_inv request_info_sync_inv)
qed

lemma reachable_queue_inv: "reachable c \<Longrightarrow> queue_inv c"
proof (induction rule: reachable.induct)
  case (reach_init m)
  show ?case by (rule queue_inv_init)
next
  case (reach_connect c opened)
  then show ?case by (simp add: queue_inv_def connect_def)
next
  case (reach_disconnect c)
  then show ?case by (simp add: queue_inv_def disconnect_def stop_def Let_def)
qed (simp_all add: stop_def start_inv request_info_sync_inv check_aisle_inv dispense_inv
      drive_aisle_direct_inv set_aisle_inventory_inv request_machine_status_inv handle_poll_inv
      handle_received_packet_inv)

lemma queue_inv_filter:
  assumes "\<forall>e \<in> set (tl q). \<not> P e"
  shows "length (filter P q) \<le> 1 \<and> (\<forall>i < length q. P (q ! i) \<longrightarrow> i = 0)"
proof (cases q)
  case Nil
  then show ?thesis by simp
next
  case (Cons x xs)
  then have n: "\<forall>e \<in> set xs. \<not> P e" using assms by simp
  then have "filter P xs = []" by (simp add: filter_empty_conv)
  moreover have "i = 0" if "i < length q" "P (q ! i)" for i
  proof (cases i)
    case 0 then show ?thesis .
  next
    case (Suc j)
    then have "xs ! j \<in> set xs" using that(1) Cons by simp
    then show ?thesis using n that(2) Cons Suc by simp
  qed
  ultimately show ?thesis using Cons by auto
qed

text \<open>
  C6: in every state reachable from a fresh controller by any sequence of method calls
  (among them every command submission) and dispatched frames (among them POLL and ACK),
  at most one entry of the command queue has \<open>waiting_ack\<close> set, and an entry that has it
  set is the head of the queue.
\<close>

theorem at_most_one_in_flight:
  assumes "reachable c"
  shows "length (filter waiting_ack (command_queue c)) \<le> 1
     \<and> (\<forall>i < length (command_queue c). waiting_ack (command_queue c ! i) \<longrightarrow> i = 0)"
  using reachable_queue_inv [OF assms] queue_inv_filter [of "command_queue c" waiting_ack]
  by (simp add: queue_inv_def)

theorem at_most_one_in_flight_witness:
  "reachable
     (snd (handle_poll
             (snd (queue_command (snd (connect (init_controller 5 :: nat controller) True))
                     SELECT_BUY [1, 0, 5] None None))
             0 0 True))
   \<and> map waiting_ack
        (command_queue
           (snd (handle_poll
                   (snd (queue_command (snd (connect (init_controller 5 :: nat controller) True))
                           SELECT_BUY [1, 0, 5] None None))
                   0 0 True))) = [True]
   \<and> length (filter waiting_ack
        (command_queue
           (snd (handle_poll
                   (snd (queue_command (snd (connect (init_controller 5 :: nat controller) True))
                           SELECT_BUY [1, 0, 5] None None))
                   0 0 True)))) \<le> 1"
proof -
  have r: "reachable
     (snd (handle_poll
             (snd (queue_command (snd (connect (init_controller 5 :: nat controller) True))
                     SELECT_BUY [1, 0, 5] None None))
             0 0 True))"
    by (intro reachable.intros)
  have w: "map waiting_ack
        (command_queue
           (snd (handle_poll
                   (snd (queue_command (snd (connect (init_controller 5 :: nat controller) True))
                           SELECT_BUY [1, 0, 5] None None))
                   0 0 True))) = [True]"
    by (simp add: handle_poll_def poll_timeout_step_def poll_send_step_def queue_command_def
        connect_def init_controller_def create_packet_def serial_write_def Let_def)
  show ?thesis
    using at_most_one_in_flight [OF r] r w by simp
qed

section \<open>C7: facade timeouts\<close>

text \<open>
  C7 as stated fails for \<open>check_aisle_status\<close>: its timeout response has the status
  NOT\_EXIST (\<open>AisleStatusEnum\<close> has no member FAILED) and the message "Status check timed
  out".
\<close>

theorem status_check_timeout_counterexample:
  "asr_message
     (fst (check_aisle_status_finish
             \<lparr>controller = init_controller 5 :: nat controller,
              pending_dispenses = Map.empty, pending_status_checks = [5 \<mapsto> 7]\<rparr>
             5 TimeoutError))
     = Literal ''Status check timed out''
   \<and> Literal ''Status check timed out'' \<noteq> Literal ''Operation timed out''
   \<and> asr_status
       (fst (check_aisle_status_finish
               \<lparr>controller = init_controller 5 :: nat controller,
                pending_dispenses = Map.empty, pending_status_checks = [5 \<mapsto> 7]\<rparr>
               5 TimeoutError))
     = AisleStatusEnum_NOT_EXIST"
  by (simp add: check_aisle_status_finish_def)

text \<open>
  C7, amended: when the timeout of \<open>dispense\<close> elapses before the future is resolved, it
  returns a response with \<open>success = False\<close>, status FAILED and the message "Operation
  timed out"; when the timeout of \<open>check_aisle_status\<close> elapses first, it returns a
  response with status NOT\_EXIST and the message "Status check timed out".
\<close>

theorem timeout_responses:
  "fst (dispense_finish s request txn TimeoutError) =
       \<lparr>resp_success = False, resp_aisle_number = req_aisle_number request,
        resp_status = DispenseStatusEnum_FAILED,
        resp_message = Literal ''Operation timed out'', transaction_id = Some txn\<rparr>
   \<and> fst (check_aisle_status_finish s aisle TimeoutError) =
       \<lparr>asr_aisle_number = aisle, asr_status = AisleStatusEnum_NOT_EXIST,
        asr_message = Literal ''Status check timed out''\<rparr>"
  by (simp add: dispense_finish_def check_aisle_status_finish_def)

section \<open>C8: communication numbers\<close>

lemma comm_numbers_nth:
  "1 \<le> comm_number c \<Longrightarrow> comm_number c \<le> 255 \<Longrightarrow> i < n \<Longrightarrow>
     comm_numbers n c ! i = ((comm_number c - 1 + int i) mod 255) + 1"
proof (induction n arbitrary: c i)
  case 0
  then show ?case by simp
next
  case (Suc n)
  define c' where "c' = c\<lparr>comm_number := (comm_number c mod 255) + 1\<rparr>"
  have g: "get_next_comm_number c = (comm_number c, c')"
    by (simp add: get_next_comm_number_def c'_def)
  have r: "1 \<le> comm_number c'" "comm_number c' \<le> 255"
    using Suc.prems(1) by (simp_all add: c'_def) 
  show ?case
  proof (cases i)
    case 0
    then show ?thesis using Suc.prems by (simp add: g)
  next
    case (Suc j)
    then have "j < n" using Suc.prems(3) by simp
    from Suc.IH [OF r this]
    have "comm_numbers n c' ! j = ((comm_number c mod 255 + int j) mod 255) + 1"
      by (simp add: c'_def)
    also have "(comm_number c mod 255 + int j) mod 255 = (comm_number c + int j) mod 255"
      by (simp add: mod_add_left_eq)
    finally show ?thesis using Suc by (simp add: g)
  qed
qed

text \<open>
  C8: the counter starts at 1; each call returns the current value and advances it to
  \<open>(n mod 255) + 1\<close>; hence for every \<open>k \<ge> 1\<close> the \<open>k\<close>-th call (of \<open>n \<ge> k\<close> calls on a
  fresh controller) returns \<open>((k - 1) mod 255) + 1\<close>, which is never 0 and lies in
  \<open>1..=255\<close>, and the call 255 calls later returns the same value.
\<close>

theorem comm_number_sequence:
  assumes "1 \<le> k" and "k \<le> n"
  shows "comm_number (init_controller m :: 'cb controller) = 1
    \<and> fst (get_next_comm_number (c :: 'cb controller)) = comm_number c
    \<and> comm_number (snd (get_next_comm_number c)) = (comm_number c mod 255) + 1
    \<and> comm_numbers n (init_controller m :: 'cb controller) ! (k - 1) = int ((k - 1) mod 255) + 1
    \<and> comm_numbers n (init_controller m :: 'cb controller) ! (k - 1) \<noteq> 0
    \<and> 1 \<le> comm_numbers n (init_controller m :: 'cb controller) ! (k - 1)
    \<and> comm_numbers n (init_controller m :: 'cb controller) ! (k - 1) \<le> 255
    \<and> (k + 255 \<le> n \<longrightarrow>
         comm_numbers n (init_controller m :: 'cb controller) ! (k + 255 - 1)
           = comm_numbers n (init_controller m :: 'cb controller) ! (k - 1))"
proof -
  let ?c = "init_controller m :: 'cb controller"
  have c1: "comm_number ?c = 1" by (simp add: init_controller_def)
  have nth: "comm_numbers n ?c ! i = int (i mod 255) + 1" if "i < n" for i
    using comm_numbers_nth [of ?c i n] that by (simp add: c1 zmod_int)
  have k1: "k - 1 < n" using assms by simp
  have v: "comm_numbers n ?c ! (k - 1) = int ((k - 1) mod 255) + 1"
    by (rule nth [OF k1])
  have per: "comm_numbers n ?c ! (k + 255 - 1) = comm_numbers n ?c ! (k - 1)" if "k + 255 \<le> n"
  proof -
    have "k + 255 - 1 < n" using that by simp
    then have "comm_numbers n ?c ! (k + 255 - 1) = int ((k + 255 - 1) mod 255) + 1"
      by (rule nth)
    moreover have "(k + 255 - 1) mod 255 = (k - 1) mod 255"
    proof -
      obtain j where j: "k = Suc j" using assms(1) by (cases k) auto
      show ?thesis by (simp add: j)
    qed
    ultimately show ?thesis using v by simp
  qed
  have b: "int ((k - 1) mod 255) + 1 \<le> 255"
    by (simp add: less_imp_le [OF pos_mod_bound] Suc_leI)
  show ?thesis
    using v per b by (simp add: c1 get_next_comm_number_def)
qed

theorem comm_number_sequence_witness:
  "(1 :: nat) \<le> 3 \<and> (3 :: nat) \<le> 300
   \<and> comm_numbers 300 (init_controller 5 :: nat controller) ! 2 = 3
   \<and> comm_numbers 300 (init_controller 5 :: nat controller) ! 257 = 3"
  using comm_number_sequence [of 3 300 5 "init_controller 5 :: nat controller"]
  by simp

section \<open>C9: short payloads\<close>

text \<open>
  C9: for every DISPENSING\_STATUS or AISLE\_STATUS\_RESPONSE payload shorter than 4 bytes,
  the handler returns without raising, calls no callback, and leaves the two callback
  tables (and the rest of the controller) unchanged.
\<close>

theorem short_payload:
  assumes "length text < 4"
  shows "handle_dispensing_status c text = (None, c)
     \<and> handle_aisle_status_response c text = (None, c)
     \<and> invoked (snd (handle_dispensing_status c text)) = invoked c
     \<and> invoked (snd (handle_aisle_status_response c text)) = invoked c
     \<and> dispense_callbacks (snd (handle_dispensing_status c text)) = dispense_callbacks c
     \<and> aisle_status_callbacks (snd (handle_dispensing_status c text))
         = aisle_status_callbacks c
     \<and> dispense_callbacks (snd (handle_aisle_status_response c text)) = dispense_callbacks c
     \<and> aisle_status_callbacks (snd (handle_aisle_status_response c text))
         = aisle_status_callbacks c"
  using assms by (simp add: handle_dispensing_status_def handle_aisle_status_response_def)

theorem short_payload_witness:
  "length [1, 2, 0 :: byte] < 4
   \<and> handle_dispensing_status
        (snd (dispense (init_controller 5 :: nat controller) 5 (Some 7))) [1, 2, 0]
       = (None, snd (dispense (init_controller 5 :: nat controller) 5 (Some 7)))
   \<and> handle_aisle_status_response
        (snd (dispense (init_controller 5 :: nat controller) 5 (Some 7))) [1, 2, 0]
       = (None, snd (dispense (init_controller 5 :: nat controller) 5 (Some 7)))"
  using short_payload
    [of "[1, 2, 0]" "snd (dispense (init_controller 5 :: nat controller) 5 (Some 7))"]
  by simp

section \<open>C10: operations on a disconnected controller\<close>

text \<open>
  C10: when the controller is not connected, \<open>dispense\<close> and \<open>check_aisle_status\<close> return
  their failure response before the \<open>await\<close> and leave the service object, with its
  controller, as it was: nothing is appended to the command queue, no future is
  registered in the pending tables, no callback is registered in the callback tables.
\<close>

theorem not_connected:
  assumes "\<not> is_connected (controller s)"
  shows "dispense_start s request txn future =
       (Some \<lparr>resp_success = False, resp_aisle_number = req_aisle_number request,
               resp_status = DispenseStatusEnum_FAILED,
               resp_message = Literal ''VMC not connected'', transaction_id = None\<rparr>, s)
     \<and> check_aisle_status_start s aisle future =
       (Some \<lparr>asr_aisle_number = aisle, asr_status = AisleStatusEnum_NOT_EXIST,
               asr_message = Literal ''VMC not connected''\<rparr>, s)
     \<and> command_queue (controller (snd (dispense_start s request txn future)))
         = command_queue (controller s)
     \<and> command_queue (controller (snd (check_aisle_status_start s aisle future)))
         = command_queue (controller s)
     \<and> pending_dispenses (snd (dispense_start s request txn future)) = pending_dispenses s
     \<and> pending_status_checks (snd (check_aisle_status_start s aisle future))
         = pending_status_checks s
     \<and> dispense_callbacks (controller (snd (dispense_start s request txn future)))
         = dispense_callbacks (controller s)
     \<and> aisle_status_callbacks (controller (snd (check_aisle_status_start s aisle future)))
         = aisle_status_callbacks (controller s)"
  using assms by (simp add: dispense_start_def check_aisle_status_start_def)

theorem not_connected_witness:
  "\<not> is_connected (init_controller 5 :: nat controller)
   \<and> snd (dispense_start
            \<lparr>controller = init_controller 5 :: nat controller,
             pending_dispenses = Map.empty, pending_status_checks = Map.empty\<rparr>
            \<lparr>req_aisle_number = 5, use_drop_sensor = True, use_elevator = False,
             force = False\<rparr> ''txn_0'' 7)
       = \<lparr>controller = init_controller 5 :: nat controller,
          pending_dispenses = Map.empty, pending_status_checks = Map.empty\<rparr>
   \<and> snd (check_aisle_status_start
            \<lparr>controller = init_controller 5 :: nat controller,
             pending_dispenses = Map.empty, pending_status_checks = Map.empty\<rparr> 5 7)
       = \<lparr>controller = init_controller 5 :: nat controller,
          pending_dispenses = Map.empty, pending_status_checks = Map.empty\<rparr>"
  using not_connected
    [of "\<lparr>controller = init_controller 5 :: nat controller,
          pending_dispenses = Map.empty, pending_status_checks = Map.empty\<rparr>"
        "\<lparr>req_aisle_number = 5, use_drop_sensor = True, use_elevator = False,
          force = False\<rparr>" "''txn_0''" 7 5]
  by (simp add: is_connected_def init_controller_def)

end
